theory Spec2Isabelle
  imports Complex_Main
begin

section \<open>bench\_img.py: data synthesis and chart construction\<close>

text \<open>
  The script builds two series over the steps 0..50 and hands them to a plotting
  library. Its embedding follows the script line by line.

  \<^item> A numpy array is a list; the float64 values the script computes are all finite and
    are taken as real numbers, the integer array \<open>steps\<close> as a list of \<open>int\<close>.
  \<^item> numpy's global random generator is state: a value of a type \<open>'g\<close> that every draw
    reads and replaces. The generator itself belongs to numpy, so its two primitives are
    parameters: \<open>init\<close>, the state a seed produces, and \<open>gauss\<close>, one standard normal
    sample together with the next state.
  \<^item> The calls to the plotting library are the script's output: the chart is the list
    of these calls, in the order the script makes them.
  \<^item> An operation of numpy that can raise returns a sum, \<open>Inl\<close> the error.
\<close>

subsection \<open>numpy\<close>

datatype py_error = ValueError

type_synonym 'g gauss = "'g \<Rightarrow> real \<times> 'g"

text \<open>\<open>np.arange(start, stop)\<close>: the integers from \<open>start\<close> up to, not including, \<open>stop\<close>.\<close>

definition np_arange :: "int \<Rightarrow> int \<Rightarrow> int list" where
  "np_arange start stop = [start..stop - 1]"

text \<open>\<open>np.random.seed(n)\<close> replaces the global state, whatever it was.\<close>

definition np_random_seed :: "(nat \<Rightarrow> 'g) \<Rightarrow> nat \<Rightarrow> 'g \<Rightarrow> 'g" where
  "np_random_seed init n g = init n"

text \<open>
  \<open>np.random.normal(loc, scale, size=n)\<close>: \<open>n\<close> samples \<open>loc + scale * z\<close>, each \<open>z\<close> the
  next standard normal sample of the global state; the state after the last draw is
  returned with the samples.
\<close>

fun np_random_normal :: "'g gauss \<Rightarrow> real \<Rightarrow> real \<Rightarrow> nat \<Rightarrow> 'g \<Rightarrow> real list \<times> 'g" where
  "np_random_normal gauss loc scale 0 g = ([], g)"
| "np_random_normal gauss loc scale (Suc n) g =
     (case gauss g of (z, g1) \<Rightarrow>
        (case np_random_normal gauss loc scale n g1 of (zs, g2) \<Rightarrow>
           ((loc + scale * z) # zs, g2)))"

text \<open>\<open>x ** ks\<close> for a float \<open>x\<close> and an integer array \<open>ks\<close>, and \<open>c * xs\<close> for a scalar \<open>c\<close>.\<close>

definition np_rpow :: "real \<Rightarrow> int list \<Rightarrow> real list" where
  "np_rpow x ks = map (\<lambda>k. power_int x k) ks"

definition np_scale :: "real \<Rightarrow> real list \<Rightarrow> real list" where
  "np_scale c xs = map (\<lambda>x. c * x) xs"

text \<open>
  \<open>xs + ys\<close> on one-dimensional arrays: elementwise on equal shapes, an array of one
  element is broadcast over the other, and any other pair of shapes raises.
\<close>

definition np_add :: "real list \<Rightarrow> real list \<Rightarrow> py_error + real list" where
  "np_add xs ys =
     (if length xs = length ys then Inr (map2 (+) xs ys)
      else if length xs = 1 then Inr (map (\<lambda>y. hd xs + y) ys)
      else if length ys = 1 then Inr (map (\<lambda>x. x + hd ys) xs)
      else Inl ValueError)"

text \<open>\<open>np.clip(a, a_min, a_max)\<close> is \<open>minimum(a_max, maximum(a, a_min))\<close>, elementwise.\<close>

definition clip :: "real \<Rightarrow> real \<Rightarrow> real \<Rightarrow> real" where
  "clip x a_min a_max = min a_max (max x a_min)"

definition np_clip :: "real list \<Rightarrow> real \<Rightarrow> real \<Rightarrow> real list" where
  "np_clip xs a_min a_max = map (\<lambda>x. clip x a_min a_max) xs"

definition np_full :: "nat \<Rightarrow> real \<Rightarrow> real list" where
  "np_full n v = replicate n v"

subsection \<open>Data configuration (lines 7 to 21)\<close>

text \<open>The variables the script has bound when plotting starts.\<close>

record bench_data =
  steps :: "int list"
  drift_noise :: "real list"
  standard_agent_retention :: "real list"
  seu_claude_retention :: "real list"
  crash_indices :: "int list"

definition decay_rate :: real where
  "decay_rate = 0.96"

text \<open>The decay term of line 15, \<open>100 * (decay_rate ** steps)\<close>, before the noise is added.\<close>

definition decay_curve :: "int list \<Rightarrow> real list" where
  "decay_curve ks = np_scale 100 (np_rpow decay_rate ks)"

text \<open>Lines 15 and 16: the decay term plus the noise, then clipped to 0..100.\<close>

definition retention_of :: "int list \<Rightarrow> real list \<Rightarrow> py_error + real list" where
  "retention_of ks noise =
     (case np_add (decay_curve ks) noise of
        Inl e \<Rightarrow> Inl e
      | Inr a \<Rightarrow> Inr (np_clip a 0 100))"

text \<open>
  Lines 8 to 21, from the global generator state \<open>g0\<close> the script starts in: the bound
  variables and the generator state the draws leave behind.
\<close>

definition data_configuration ::
  "(nat \<Rightarrow> 'g) \<Rightarrow> 'g gauss \<Rightarrow> 'g \<Rightarrow> py_error + (bench_data \<times> 'g)" where
  "data_configuration init gauss g0 =
     (let ks = np_arange 0 51;
          g1 = np_random_seed init 42 g0
      in case np_random_normal gauss 0 2.5 (length ks) g1 of (noise, g2) \<Rightarrow>
           (case retention_of ks noise of
              Inl e \<Rightarrow> Inl e
            | Inr a \<Rightarrow>
                Inr (\<lparr>steps = ks,
                      drift_noise = noise,
                      standard_agent_retention = a,
                      seu_claude_retention = np_full (length ks) 100.0,
                      crash_indices = [10, 22, 35, 42]\<rparr>, g2)))"

subsection \<open>Plotting (lines 5 and 23 to 59)\<close>

text \<open>
  One constructor for each call the script makes, with the arguments it passes; an
  argument the script leaves out is \<open>None\<close>. \<open>arrowprops\<close> is the pair of \<open>facecolor\<close>
  and \<open>arrowstyle\<close>; an annotation without it has no arrow.
\<close>

datatype call =
    Style_use string
  | Subplots real real
  | Plot "int list" "real list" string string real "string option"
  | Fill_between "int list" "real list" real string real
  | Scatter int real string real int string string
  | Annotate string "int \<times> real" "int \<times> real" "(string \<times> string) option" real string string
  | Set_title string real string real
  | Set_xlabel string real
  | Set_ylabel string real
  | Set_xlim real real
  | Set_ylim real real
  | Axhline real string string real
  | Text real real string string real string
  | Legend string bool real bool
  | Tight_layout
  | Savefig string nat

text \<open>The loop of lines 38 to 44.\<close>

fun mark_crash_points :: "int list \<Rightarrow> call list" where
  "mark_crash_points [] = []"
| "mark_crash_points (crash # rest) =
     Scatter crash 100 ''#f39c12'' 100 5 ''X'' ''white'' #
     (if crash = 10
      then [Annotate (''Crash & Recover'' @ [CHR 0x0A] @ ''(No State Loss)'')
              (crash, 100) (crash + 2, 85) (Some (''#333'', ''->'')) 10 ''bold'' ''#333'']
      else []) @
     mark_crash_points rest"

definition plotting :: "bench_data \<Rightarrow> call list" where
  "plotting d =
     [Subplots 12 7,
      Plot (steps d) (standard_agent_retention d)
        ''Standard Agent (Context Decay)'' ''#e74c3c'' 2 (Some ''--''),
      Fill_between (steps d) (standard_agent_retention d) 0 ''#e74c3c'' 0.1,
      Plot (steps d) (seu_claude_retention d)
        ''Seu-Claude v2 (Persistent DAG)'' ''#27ae60'' 3 None] @
     mark_crash_points (crash_indices d) @
     [Set_title ''Stochastic Drift vs. Deterministic State (50-Step Task)'' 16 ''bold'' 20,
      Set_xlabel ''Execution Step (Task Depth)'' 12,
      Set_ylabel ''Effective Context Retention (%)'' 12,
      Set_xlim 0 50,
      Set_ylim 0 105,
      Axhline 60 ''gray'' '':'' 0.5,
      Text 1 62 ''Hallucination Threshold (Unreliable Zone)'' ''gray'' 10 ''italic'',
      Legend ''lower left'' True 11 True,
      Tight_layout,
      Savefig ''stochastic_drift_benchmark.png'' 300]"

text \<open>The whole script: the calls it makes and the generator state it ends in.\<close>

definition bench_img ::
  "(nat \<Rightarrow> 'g) \<Rightarrow> 'g gauss \<Rightarrow> 'g \<Rightarrow> py_error + (call list \<times> 'g)" where
  "bench_img init gauss g0 =
     (case data_configuration init gauss g0 of
        Inl e \<Rightarrow> Inl e
      | Inr (d, g) \<Rightarrow> Inr (Style_use ''seaborn-v0_8-whitegrid'' # plotting d, g))"

subsection \<open>Reading a chart\<close>

text \<open>
  The points with a marker, the annotated points (each with whether an arrow connects
  the text to it), the x values of the line traces, the canvases and the files written,
  each in call order.
\<close>

fun marker_point :: "call \<Rightarrow> (int \<times> real) option" where
  "marker_point (Scatter x y c s z m e) = Some (x, y)"
| "marker_point _ = None"

fun annotation :: "call \<Rightarrow> ((int \<times> real) \<times> bool) option" where
  "annotation (Annotate t xy xytext arrowprops fs fw c) = Some (xy, arrowprops \<noteq> None)"
| "annotation _ = None"

fun plot_xs :: "call \<Rightarrow> int list option" where
  "plot_xs (Plot xs ys l c w ls) = Some xs"
| "plot_xs _ = None"

fun canvas :: "call \<Rightarrow> (real \<times> real) option" where
  "canvas (Subplots w h) = Some (w, h)"
| "canvas _ = None"

fun saved_file :: "call \<Rightarrow> (string \<times> nat) option" where
  "saved_file (Savefig fname dpi) = Some (fname, dpi)"
| "saved_file _ = None"

definition marker_points :: "call list \<Rightarrow> (int \<times> real) list" where
  "marker_points tr = List.map_filter marker_point tr"

definition annotations :: "call list \<Rightarrow> ((int \<times> real) \<times> bool) list" where
  "annotations tr = List.map_filter annotation tr"

definition trace_domains :: "call list \<Rightarrow> int list list" where
  "trace_domains tr = List.map_filter plot_xs tr"

definition canvases :: "call list \<Rightarrow> (real \<times> real) list" where
  "canvases tr = List.map_filter canvas tr"

definition saved_files :: "call list \<Rightarrow> (string \<times> nat) list" where
  "saved_files tr = List.map_filter saved_file tr"

text \<open>A canvas is landscape when it is wider than it is high.\<close>

fun landscape :: "real \<times> real \<Rightarrow> bool" where
  "landscape (w, h) = (h < w)"

text \<open>
  The plotting library takes the format of a saved figure from the file name's
  extension, the text after the last dot; these are its raster formats.
\<close>

definition file_extension :: "string \<Rightarrow> string" where
  "file_extension fname = rev (takeWhile (\<lambda>c. c \<noteq> CHR ''.'') (rev fname))"

definition raster_formats :: "string list" where
  "raster_formats = [''png'', ''jpg'', ''jpeg'', ''tif'', ''tiff'', ''webp'', ''raw'', ''rgba'']"

subsection \<open>A small generator to run the script on\<close>

text \<open>A linear congruential generator on 0..15, its state read as a sample in -2..1.75.\<close>

definition lcg_init :: "nat \<Rightarrow> nat" where
  "lcg_init n = n mod 16"

definition lcg_gauss :: "nat gauss" where
  "lcg_gauss g = ((real g - 8) / 4, (5 * g + 3) mod 16)"

section \<open>Properties\<close>

subsection \<open>The numpy operations\<close>

lemma length_np_random_normal:
  "np_random_normal gauss loc scale n g = (zs, g') \<Longrightarrow> length zs = n"
  by (induction n arbitrary: g zs g') (auto split: prod.splits)

lemma np_random_normal_nth_0:
  "fst (np_random_normal gauss loc scale (Suc n) g) ! 0 = loc + scale * fst (gauss g)"
  by (simp split: prod.splits)

lemma np_random_normal_nth_Suc:
  "fst (np_random_normal gauss loc scale (Suc n) g) ! Suc k =
   fst (np_random_normal gauss loc scale n (snd (gauss g))) ! k"
  by (simp split: prod.splits)

lemma np_random_normal_nth:
  "s < n \<Longrightarrow>
   fst (np_random_normal gauss loc scale n g) ! s =
     loc + scale * fst (gauss (((\<lambda>h. snd (gauss h)) ^^ s) g))"
proof (induction n arbitrary: s g)
  case 0
  then show ?case by simp
next
  case (Suc n)
  show ?case
  proof (cases s)
    case 0
    show ?thesis
      unfolding 0 np_random_normal_nth_0 by simp
  next
    case (Suc k)
    then have "k < n"
      using Suc.prems by simp
    moreover have "((\<lambda>h. snd (gauss h)) ^^ Suc k) g =
        ((\<lambda>h. snd (gauss h)) ^^ k) (snd (gauss g))"
      by (simp only: funpow_Suc_right o_apply)
    ultimately show ?thesis
      unfolding Suc np_random_normal_nth_Suc by (simp only: Suc.IH)
  qed
qed

lemma clip_0_100_cases:
  "clip x 0 100 = (if x < 0 then 0 else if 100 < x then 100 else x)"
  by (simp add: clip_def)

lemma clip_0_100_bounds: "0 \<le> clip x 0 100 \<and> clip x 0 100 \<le> 100"
  by (simp add: clip_def)


lemma np_arange_0_51: "np_arange 0 51 = map int [0..<51]"
  unfolding np_arange_def by (simp add: upto.simps upt_rec)

lemma length_decay_curve: "length (decay_curve ks) = length ks"
  by (simp add: decay_curve_def np_scale_def np_rpow_def)

lemma decay_curve_nth:
  "s < n \<Longrightarrow> decay_curve (map int [0..<n]) ! s = 100 * decay_rate ^ s"
  by (simp add: decay_curve_def np_scale_def np_rpow_def)

lemma retention_of_eq:
  "length noise = length ks \<Longrightarrow>
   retention_of ks noise = Inr (np_clip (map2 (+) (decay_curve ks) noise) 0 100)"
  by (simp add: retention_of_def np_add_def length_decay_curve)

subsection \<open>The data configuration never raises\<close>

lemma data_configuration_eq:
  assumes draw: "np_random_normal gauss 0 2.5 51 (init 42) = (noise, g2)"
  shows "data_configuration init gauss g0 =
     Inr (\<lparr>steps = np_arange 0 51,
           drift_noise = noise,
           standard_agent_retention =
             np_clip (map2 (+) (decay_curve (np_arange 0 51)) noise) 0 100,
           seu_claude_retention = replicate 51 100,
           crash_indices = [10, 22, 35, 42]\<rparr>, g2)"
proof -
  have len: "length (np_arange 0 51) = 51"
    by (simp add: np_arange_0_51)
  have "length noise = 51"
    using length_np_random_normal [OF draw] .
  then have "retention_of (np_arange 0 51) noise =
      Inr (np_clip (map2 (+) (decay_curve (np_arange 0 51)) noise) 0 100)"
    by (simp add: retention_of_eq len)
  with draw show ?thesis
    by (simp add: data_configuration_def Let_def len np_random_seed_def np_full_def)
qed

lemma data_configuration_runs:
  "\<exists>noise g2. np_random_normal gauss 0 2.5 51 (init 42) = (noise, g2) \<and>
     length noise = 51 \<and>
     data_configuration init gauss g0 =
       Inr (\<lparr>steps = np_arange 0 51,
             drift_noise = noise,
             standard_agent_retention =
               np_clip (map2 (+) (decay_curve (np_arange 0 51)) noise) 0 100,
             seu_claude_retention = replicate 51 100,
             crash_indices = [10, 22, 35, 42]\<rparr>, g2)"
proof -
  obtain noise g2 where draw: "np_random_normal gauss 0 2.5 51 (init 42) = (noise, g2)"
    by (cases "np_random_normal gauss 0 2.5 51 (init 42)")
  show ?thesis
    using draw length_np_random_normal [OF draw]
      data_configuration_eq [where init = init and gauss = gauss and ?g0.0 = g0, OF draw]
    by blast
qed

subsection \<open>Reading the chart the script draws\<close>

lemma map_filter_append:
  "List.map_filter f (xs @ ys) = List.map_filter f xs @ List.map_filter f ys"
  by (simp add: List.map_filter_def)

lemma plot_xs_mark_crash_points: "List.map_filter plot_xs (mark_crash_points cs) = []"
  by (induction cs) (simp_all add: List.map_filter_simps map_filter_append)

lemma canvas_mark_crash_points: "List.map_filter canvas (mark_crash_points cs) = []"
  by (induction cs) (simp_all add: List.map_filter_simps map_filter_append)

lemma saved_file_mark_crash_points: "List.map_filter saved_file (mark_crash_points cs) = []"
  by (induction cs) (simp_all add: List.map_filter_simps map_filter_append)

lemma trace_domains_plotting: "trace_domains (plotting d) = [steps d, steps d]"
  by (simp add: trace_domains_def plotting_def map_filter_append plot_xs_mark_crash_points
        List.map_filter_simps)

lemma canvases_plotting: "canvases (plotting d) = [(12, 7)]"
  by (simp add: canvases_def plotting_def map_filter_append canvas_mark_crash_points
        List.map_filter_simps)

lemma saved_files_plotting:
  "saved_files (plotting d) = [(''stochastic_drift_benchmark.png'', 300)]"
  by (simp add: saved_files_def plotting_def map_filter_append saved_file_mark_crash_points
        List.map_filter_simps)

lemma marker_points_plotting:
  "crash_indices d = [10, 22, 35, 42] \<Longrightarrow>
   marker_points (plotting d) = [(10, 100), (22, 100), (35, 100), (42, 100)]"
  by (simp add: marker_points_def plotting_def map_filter_append List.map_filter_simps)

lemma annotations_plotting:
  "crash_indices d = [10, 22, 35, 42] \<Longrightarrow> annotations (plotting d) = [((10, 100), True)]"
  by (simp add: annotations_def plotting_def map_filter_append List.map_filter_simps)

lemma bench_img_runs:
  "\<exists>d g. data_configuration init gauss g0 = Inr (d, g) \<and>
     steps d = np_arange 0 51 \<and> crash_indices d = [10, 22, 35, 42] \<and>
     bench_img init gauss g0 = Inr (Style_use ''seaborn-v0_8-whitegrid'' # plotting d, g)"
proof -
  obtain d g where run: "data_configuration init gauss g0 = Inr (d, g)"
    and "steps d = np_arange 0 51" and "crash_indices d = [10, 22, 35, 42]"
    using data_configuration_runs [of gauss init g0] by force
  then show ?thesis
    by (simp add: bench_img_def)
qed

subsection \<open>Series A\<close>

text \<open>
  C1. The script never raises while building its data. Its noise is the 51 samples
  drawn from the generator seeded with 42, the sample of step \<open>s\<close> being 0 plus 2.5 times
  the standard normal sample the generator gives after \<open>s\<close> earlier draws. At every step
  \<open>s\<close> of 0..50 Series A is \<open>100 * 0.96 ^ s\<close> plus the noise of that step, replaced by 0
  when that sum is below 0 and by 100 when it is above 100.
\<close>

theorem series_a_formula:
  assumes "s \<le> 50"
  shows "\<exists>d g. data_configuration init gauss g0 = Inr (d, g) \<and>
           drift_noise d = fst (np_random_normal gauss 0 2.5 51 (init 42)) \<and>
           length (drift_noise d) = 51 \<and>
           drift_noise d ! s =
             0 + 2.5 * fst (gauss (((\<lambda>h. snd (gauss h)) ^^ s) (init 42))) \<and>
           standard_agent_retention d ! s =
             (if 100 * 0.96 ^ s + drift_noise d ! s < 0 then 0
              else if 100 < 100 * 0.96 ^ s + drift_noise d ! s then 100
              else 100 * 0.96 ^ s + drift_noise d ! s)"
proof -
  obtain noise g2 where draw: "np_random_normal gauss 0 2.5 51 (init 42) = (noise, g2)"
    and len: "length noise = 51"
    and run: "data_configuration init gauss g0 =
       Inr (\<lparr>steps = np_arange 0 51,
             drift_noise = noise,
             standard_agent_retention =
               np_clip (map2 (+) (decay_curve (np_arange 0 51)) noise) 0 100,
             seu_claude_retention = replicate 51 100,
             crash_indices = [10, 22, 35, 42]\<rparr>, g2)"
    using data_configuration_runs [of gauss init g0] by blast
  have "fst (np_random_normal gauss 0 2.5 51 (init 42)) ! s =
      0 + 2.5 * fst (gauss (((\<lambda>h. snd (gauss h)) ^^ s) (init 42)))"
    using assms by (intro np_random_normal_nth) simp
  then have sample: "noise ! s =
      0 + 2.5 * fst (gauss (((\<lambda>h. snd (gauss h)) ^^ s) (init 42)))"
    unfolding draw by simp
  have "np_clip (map2 (+) (decay_curve (np_arange 0 51)) noise) 0 100 ! s =
          clip (100 * 0.96 ^ s + noise ! s) 0 100"
    using assms len
    by (simp add: np_clip_def length_decay_curve np_arange_0_51 decay_curve_nth
          decay_rate_def)
  then have "np_clip (map2 (+) (decay_curve (np_arange 0 51)) noise) 0 100 ! s =
      (if 100 * 0.96 ^ s + noise ! s < 0 then 0
       else if 100 < 100 * 0.96 ^ s + noise ! s then 100
       else 100 * 0.96 ^ s + noise ! s)"
    unfolding clip_0_100_cases .
  then show ?thesis
    unfolding run using draw len sample by simp
qed

text \<open>
  On the small generator the seed 42 gives the state 10, read as the sample 0.5, and its
  successor 5, read as -0.75. At step 0 the noise is 1.25 and the sum 101.25 is clamped
  to 100; at step 1 the noise is -1.875 and Series A is 96 - 1.875, unclamped.
\<close>

theorem series_a_formula_witness:
  "(0::nat) \<le> 50 \<and> (1::nat) \<le> 50 \<and>
   (\<exists>d g. data_configuration lcg_init lcg_gauss 0 = Inr (d, g) \<and>
      drift_noise d ! 0 = 1.25 \<and>
      standard_agent_retention d ! 0 = 100 \<and>
      drift_noise d ! 1 = - 1.875 \<and>
      standard_agent_retention d ! 1 = 94.125)"
proof -
  obtain d g where run: "data_configuration lcg_init lcg_gauss 0 = Inr (d, g)"
    and n0: "drift_noise d ! 0 =
      0 + 2.5 * fst (lcg_gauss (((\<lambda>h. snd (lcg_gauss h)) ^^ 0) (lcg_init 42)))"
    and a0: "standard_agent_retention d ! 0 =
      (if 100 * 0.96 ^ 0 + drift_noise d ! 0 < 0 then 0
       else if 100 < 100 * 0.96 ^ 0 + drift_noise d ! 0 then 100
       else 100 * 0.96 ^ 0 + drift_noise d ! 0)"
    using series_a_formula [of 0 lcg_init lcg_gauss 0] by auto
  have n1: "drift_noise d ! 1 =
      0 + 2.5 * fst (lcg_gauss (((\<lambda>h. snd (lcg_gauss h)) ^^ 1) (lcg_init 42)))"
    and a1: "standard_agent_retention d ! 1 =
      (if 100 * 0.96 ^ 1 + drift_noise d ! 1 < 0 then 0
       else if 100 < 100 * 0.96 ^ 1 + drift_noise d ! 1 then 100
       else 100 * 0.96 ^ 1 + drift_noise d ! 1)"
    using series_a_formula [of 1 lcg_init lcg_gauss 0] run by auto
  have z0: "drift_noise d ! 0 = 1.25"
    unfolding n0 by (simp add: lcg_gauss_def lcg_init_def)
  have z1: "drift_noise d ! 1 = - 1.875"
    unfolding n1 by (simp add: lcg_gauss_def lcg_init_def)
  have "standard_agent_retention d ! 0 = 100"
    unfolding a0 z0 by simp
  moreover have "standard_agent_retention d ! 1 = 94.125"
    unfolding a1 z1 by simp
  ultimately show ?thesis
    using run z0 z1 by auto
qed

text \<open>
  C2. Whatever the 51 noise values are, lines 15 and 16 return an array of 51 values,
  each between 0 and 100; so does the script's own Series A, for every generator and
  every state the script starts in.
\<close>

theorem series_a_clamped:
  assumes "length noise = 51" and "s \<le> 50"
  shows "(\<exists>a. retention_of (np_arange 0 51) noise = Inr a \<and> length a = 51 \<and>
            0 \<le> a ! s \<and> a ! s \<le> 100) \<and>
         (\<exists>d g. data_configuration init gauss g0 = Inr (d, g) \<and>
            0 \<le> standard_agent_retention d ! s \<and> standard_agent_retention d ! s \<le> 100)"
proof
  have len: "length (np_arange 0 51) = 51"
    by (simp add: np_arange_0_51)
  show "\<exists>a. retention_of (np_arange 0 51) noise = Inr a \<and> length a = 51 \<and>
            0 \<le> a ! s \<and> a ! s \<le> 100"
    using assms
    by (simp add: retention_of_eq len np_clip_def length_decay_curve clip_0_100_bounds)
next
  obtain noise' g2 where len': "length noise' = 51"
    and run: "data_configuration init gauss g0 =
       Inr (\<lparr>steps = np_arange 0 51,
             drift_noise = noise',
             standard_agent_retention =
               np_clip (map2 (+) (decay_curve (np_arange 0 51)) noise') 0 100,
             seu_claude_retention = replicate 51 100,
             crash_indices = [10, 22, 35, 42]\<rparr>, g2)"
    using data_configuration_runs [of gauss init g0] by blast
  have "s < length (map2 (+) (decay_curve (np_arange 0 51)) noise')"
    using assms len' by (simp add: length_decay_curve np_arange_0_51)
  then have "np_clip (map2 (+) (decay_curve (np_arange 0 51)) noise') 0 100 ! s =
      clip (map2 (+) (decay_curve (np_arange 0 51)) noise' ! s) 0 100"
    unfolding np_clip_def by (rule nth_map)
  then show "\<exists>d g. data_configuration init gauss g0 = Inr (d, g) \<and>
            0 \<le> standard_agent_retention d ! s \<and> standard_agent_retention d ! s \<le> 100"
    using run by (simp add: clip_0_100_bounds)
qed

text \<open>
  With a noise of 7 at every step, step 0 is 107 before clipping and 100 after.
\<close>

theorem series_a_clamped_witness:
  "length (replicate 51 (7::real)) = 51 \<and> (0::nat) \<le> 50 \<and>
   (\<exists>a. retention_of (np_arange 0 51) (replicate 51 7) = Inr a \<and> a ! 0 = 100 \<and>
      0 \<le> a ! 0 \<and> a ! 0 \<le> 100) \<and>
   (\<exists>d g. data_configuration lcg_init lcg_gauss 0 = Inr (d, g) \<and>
      0 \<le> standard_agent_retention d ! 0 \<and> standard_agent_retention d ! 0 \<le> 100)"
proof -
  have "retention_of (np_arange 0 51) (replicate 51 7) =
      Inr (np_clip (map2 (+) (decay_curve (np_arange 0 51)) (replicate 51 7)) 0 100)"
    by (simp add: retention_of_eq np_arange_0_51)
  moreover have "np_clip (map2 (+) (decay_curve (np_arange 0 51)) (replicate 51 7)) 0 100 ! 0 = 100"
    using decay_curve_nth [of 0 51]
    by (simp add: np_clip_def np_arange_0_51 length_decay_curve clip_def)
  ultimately show ?thesis
    using series_a_clamped [of "replicate 51 7" 0 lcg_init lcg_gauss 0] by auto
qed

subsection \<open>Series B\<close>

text \<open>
  C3. Series B is the array of 51 values 100.0, one for each step: it is 100 at every
  step of 0..50.
\<close>

theorem series_b_constant:
  assumes "s \<le> 50"
  shows "\<exists>d g. data_configuration init gauss g0 = Inr (d, g) \<and>
           seu_claude_retention d = replicate 51 100 \<and>
           length (seu_claude_retention d) = length (steps d) \<and>
           seu_claude_retention d ! s = 100"
proof -
  obtain noise g2 where
    run: "data_configuration init gauss g0 =
       Inr (\<lparr>steps = np_arange 0 51,
             drift_noise = noise,
             standard_agent_retention =
               np_clip (map2 (+) (decay_curve (np_arange 0 51)) noise) 0 100,
             seu_claude_retention = replicate 51 100,
             crash_indices = [10, 22, 35, 42]\<rparr>, g2)"
    using data_configuration_runs [of gauss init g0] by blast
  show ?thesis
    using assms run by (simp add: np_arange_0_51)
qed

theorem series_b_constant_witness:
  "(50::nat) \<le> 50 \<and>
   (\<exists>d g. data_configuration lcg_init lcg_gauss 0 = Inr (d, g) \<and>
      seu_claude_retention d = replicate 51 100 \<and>
      length (seu_claude_retention d) = length (steps d) \<and>
      seu_claude_retention d ! 50 = 100)"
  using series_b_constant [of 50 lcg_init lcg_gauss 0] by simp

subsection \<open>The step domain\<close>

text \<open>
  C4. The steps are the integers 0, 1, ..., 50 in order; the steps, the noise, Series A
  and Series B all have length 51, and both line traces are drawn over the steps.
\<close>

theorem step_domain_shared:
  "\<exists>d g. data_configuration init gauss g0 = Inr (d, g) \<and>
     steps d = [0..50] \<and>
     steps d = map int [0..<51] \<and>
     length (steps d) = 51 \<and>
     length (drift_noise d) = 51 \<and>
     length (standard_agent_retention d) = 51 \<and>
     length (seu_claude_retention d) = 51 \<and>
     trace_domains (plotting d) = [steps d, steps d]"
proof -
  obtain noise g2 where len: "length noise = 51"
    and run: "data_configuration init gauss g0 =
       Inr (\<lparr>steps = np_arange 0 51,
             drift_noise = noise,
             standard_agent_retention =
               np_clip (map2 (+) (decay_curve (np_arange 0 51)) noise) 0 100,
             seu_claude_retention = replicate 51 100,
             crash_indices = [10, 22, 35, 42]\<rparr>, g2)"
    using data_configuration_runs [of gauss init g0] by blast
  have "np_arange 0 51 = [0..50]"
    by (simp add: np_arange_def)
  moreover have "length (np_clip (map2 (+) (decay_curve (np_arange 0 51)) noise) 0 100) = 51"
    using len by (simp add: np_clip_def length_decay_curve np_arange_0_51)
  moreover have "length (np_arange 0 51) = 51"
    by (simp add: np_arange_0_51)
  ultimately show ?thesis
    using run len np_arange_0_51 by (simp add: trace_domains_plotting)
qed

subsection \<open>Reproducibility\<close>

text \<open>
  C5. Running the data configuration a second time, from the generator state the first
  run left behind, gives the same Series A (the same data, and the same final state):
  line 9 seeds the generator again, whatever its state was.
\<close>

theorem series_a_reproducible:
  "\<exists>d1 g1 d2 g2.
     data_configuration init gauss g0 = Inr (d1, g1) \<and>
     data_configuration init gauss g1 = Inr (d2, g2) \<and>
     standard_agent_retention d1 = standard_agent_retention d2 \<and>
     d1 = d2 \<and> g1 = g2"
proof -
  obtain noise g2 where draw: "np_random_normal gauss 0 2.5 51 (init 42) = (noise, g2)"
    by (cases "np_random_normal gauss 0 2.5 51 (init 42)")
  show ?thesis
    using data_configuration_eq [where init = init and gauss = gauss and ?g0.0 = g0, OF draw]
      data_configuration_eq [where init = init and gauss = gauss and ?g0.0 = g2, OF draw]
    by simp
qed

subsection \<open>The decay term\<close>

text \<open>
  C6. Without noise and clipping, the decay term at step \<open>s\<close> is \<open>100 * 0.96 ^ s\<close>, and it
  is strictly decreasing over the steps 0..50.
\<close>

theorem decay_strictly_decreasing:
  assumes "s < t" and "t \<le> 50"
  shows "decay_curve (np_arange 0 51) ! s = 100 * 0.96 ^ s \<and>
         decay_curve (np_arange 0 51) ! t = 100 * 0.96 ^ t \<and>
         decay_curve (np_arange 0 51) ! t < decay_curve (np_arange 0 51) ! s"
proof -
  have s: "decay_curve (np_arange 0 51) ! s = 100 * decay_rate ^ s"
    unfolding np_arange_0_51 using assms by (intro decay_curve_nth) simp
  have t: "decay_curve (np_arange 0 51) ! t = 100 * decay_rate ^ t"
    unfolding np_arange_0_51 using assms by (intro decay_curve_nth) simp
  have "decay_rate ^ t < decay_rate ^ s"
    using assms by (intro power_strict_decreasing) (simp_all add: decay_rate_def)
  then show ?thesis
    using s t by (simp add: decay_rate_def)
qed

theorem decay_strictly_decreasing_witness:
  "(10::nat) < 11 \<and> (11::nat) \<le> 50 \<and>
   decay_curve (np_arange 0 51) ! 10 = 100 * 0.96 ^ 10 \<and>
   decay_curve (np_arange 0 51) ! 11 = 100 * 0.96 ^ 11 \<and>
   decay_curve (np_arange 0 51) ! 11 < decay_curve (np_arange 0 51) ! 10"
  using decay_strictly_decreasing [of 10 11] by simp


subsection \<open>Clipping\<close>

text \<open>
  C10. Clipping to 0..100 leaves a value of 0..100 as it is, and clipping twice is
  clipping once, for a value and for an array.
\<close>

theorem clip_idempotent:
  "(0 \<le> x \<and> x \<le> 100 \<longrightarrow> clip x 0 100 = x) \<and>
   clip (clip x 0 100) 0 100 = clip x 0 100 \<and>
   np_clip (np_clip xs 0 100) 0 100 = np_clip xs 0 100"
  by (simp add: clip_def np_clip_def)

theorem clip_idempotent_witness:
  "(0 \<le> (37.5::real) \<and> (37.5::real) \<le> 100) \<and> clip 37.5 0 100 = 37.5 \<and>
   clip (clip 250 0 100) 0 100 = clip 250 0 100 \<and> clip 250 0 100 = 100 \<and>
   clip (- 3) 0 100 = 0 \<and>
   np_clip (np_clip [- 3, 37.5, 250] 0 100) 0 100 = [0, 37.5, 100]"
  using clip_idempotent [of "37.5" "[- 3, 37.5, 250]"] clip_idempotent [of 250 "[]"]
  by (simp add: clip_def np_clip_def)

subsection \<open>The chart\<close>

text \<open>
  C7. The script draws a marker at exactly the points (10, 100), (22, 100), (35, 100) and
  (42, 100), and its only annotation is at (10, 100), with an arrow.
\<close>

theorem crash_markers:
  "\<exists>tr g. bench_img init gauss g0 = Inr (tr, g) \<and>
     marker_points tr = [(10, 100), (22, 100), (35, 100), (42, 100)] \<and>
     fst ` set (marker_points tr) = {10, 22, 35, 42} \<and>
     snd ` set (marker_points tr) = {100} \<and>
     annotations tr = [((10, 100), True)]"
proof -
  obtain d g where crash: "crash_indices d = [10, 22, 35, 42]"
    and run: "bench_img init gauss g0 = Inr (Style_use ''seaborn-v0_8-whitegrid'' # plotting d, g)"
    using bench_img_runs [of init gauss g0] by blast
  have m: "marker_points (Style_use ''seaborn-v0_8-whitegrid'' # plotting d) =
      [(10, 100), (22, 100), (35, 100), (42, 100)]"
    using marker_points_plotting [OF crash]
    by (simp add: marker_points_def List.map_filter_simps)
  have a: "annotations (Style_use ''seaborn-v0_8-whitegrid'' # plotting d) = [((10, 100), True)]"
    using annotations_plotting [OF crash]
    by (simp add: annotations_def List.map_filter_simps)
  show ?thesis
    unfolding run using m a by simp
qed

text \<open>
  C9. The script saves one file, \<open>stochastic_drift_benchmark.png\<close> at 300 dots per inch;
  its extension selects a raster format, and its one canvas is 12 by 7 inches, wider
  than high.
\<close>

theorem chart_file:
  "\<exists>tr g. bench_img init gauss g0 = Inr (tr, g) \<and>
     saved_files tr = [(''stochastic_drift_benchmark.png'', 300)] \<and>
     file_extension ''stochastic_drift_benchmark.png'' = ''png'' \<and>
     ''png'' \<in> set raster_formats \<and>
     canvases tr = [(12, 7)] \<and>
     landscape (12, 7)"
proof -
  obtain d g where
    run: "bench_img init gauss g0 = Inr (Style_use ''seaborn-v0_8-whitegrid'' # plotting d, g)"
    using bench_img_runs [of init gauss g0] by blast
  have s: "saved_files (Style_use ''seaborn-v0_8-whitegrid'' # plotting d) =
      [(''stochastic_drift_benchmark.png'', 300)]"
    using saved_files_plotting [of d] by (simp add: saved_files_def List.map_filter_simps)
  have c: "canvases (Style_use ''seaborn-v0_8-whitegrid'' # plotting d) = [(12, 7)]"
    using canvases_plotting [of d] by (simp add: canvases_def List.map_filter_simps)
  have e: "file_extension ''stochastic_drift_benchmark.png'' = ''png''"
    by (simp add: file_extension_def)
  have r: "''png'' \<in> set raster_formats"
    by (simp add: raster_formats_def)
  show ?thesis
    unfolding run using s c e r by simp
qed

end
